theory Spec2Isabelle
  imports Complex_Main "HOL-Library.Word" "HOL-Library.List_Lexorder"
begin

section \<open>Distributed changefeed planning (pkg/ccl/changefeedccl/changefeed_dist.go)\<close>

text \<open>
  A shallow embedding of \<^verbatim>\<open>changefeed_dist.go\<close>: the computation of the starting
  timestamps in \<^verbatim>\<open>distChangefeedFlow\<close>, span resolution in \<^verbatim>\<open>fetchSpansForTables\<close>,
  the two replan settings, the plan closure returned by \<^verbatim>\<open>makePlan\<close> and the row
  writer \<^verbatim>\<open>changefeedResultWriter\<close>. Code of other packages that the file calls is
  either passed in as a parameter or, where a property needs its meaning, modelled
  from the written specification and marked so.
\<close>

subsection \<open>Data of the collaborating packages\<close>

text \<open>\<^verbatim>\<open>roachpb.Key\<close> is a byte slice; keys are ordered as byte strings (lexicographically).\<close>

type_synonym Key = "8 word list"

text \<open>
  Modelled from the spec: \<^verbatim>\<open>roachpb.Span\<close>, declared in the package \<^verbatim>\<open>roachpb\<close>. The
  specification describes a span as a contiguous key range with a start key and an end
  key, half-open.
\<close>

record Span =
  Key :: Key
  EndKey :: Key

text \<open>
  Modelled from the spec: \<^verbatim>\<open>hlc.Timestamp\<close>, declared in the package \<^verbatim>\<open>hlc\<close>. A
  timestamp is a point in logical time; the empty timestamp is Go's zero value of the
  struct, which is what \<^verbatim>\<open>IsEmpty\<close> tests.
\<close>

record Timestamp =
  WallTime :: int
  Logical :: int

definition emptyTimestamp :: Timestamp where
  "emptyTimestamp = \<lparr>WallTime = 0, Logical = 0\<rparr>"


text \<open>Errors of the flow, as values.\<close>

datatype pgcode = InvalidParameterValue

datatype error =
    PgError pgcode string
  | Canceled
  | DeadlineExceeded
  | IndexOutOfRange
  | OtherError string

text \<open>\<^verbatim>\<open>jobspb.ChangefeedDetails\<close>, with the fields the file reads.\<close>

record 'target ChangefeedDetails =
  SinkURI :: string
  Select :: string
  StatementTime :: Timestamp
  Opts :: "string \<rightharpoonup> string"
  TargetSpecifications :: "'target list"

text \<open>\<^verbatim>\<open>jobspb.ChangefeedProgress_Checkpoint\<close>: the spans resolved past a timestamp.\<close>

record Checkpoint =
  Spans :: "Span list"
  Timestamp :: Timestamp


text \<open>
  \<^verbatim>\<open>jobspb.Progress\<close>: \<^verbatim>\<open>GetHighWater\<close> returns a pointer that is nil when the
  progress holds no high-water, and \<^verbatim>\<open>GetChangefeed\<close> a pointer to the changefeed
  progress, whose \<^verbatim>\<open>Checkpoint\<close> is again a pointer. A nil pointer is \<open>None\<close>.
\<close>

record ChangefeedProgress =
  Checkpoint :: "Checkpoint option"




subsection \<open>The starting timestamps: distChangefeedFlow\<close>

text \<open>The initial scan types of \<^verbatim>\<open>changefeedbase\<close>; the flow compares with \<^verbatim>\<open>NoInitialScan\<close>.\<close>

datatype InitialScanType = InitialScan | NoInitialScan | OnlyInitialScan



subsection \<open>Span resolution: fetchSpansForTables\<close>

text \<open>Go's \<^verbatim>\<open>%d\<close> of a length: the decimal digits, the most significant first.\<close>

definition digit :: "nat \<Rightarrow> char" where
  "digit d = char_of (of_char (CHR ''0'') + d)"

fun formatDecimal :: "nat \<Rightarrow> string" where
  "formatDecimal n =
     (if 10 \<le> n then formatDecimal (n div 10) @ [digit (n mod 10)] else [digit n])"

declare formatDecimal.simps [simp del]

text \<open>A read of a Go map of strings: a missing key reads as the empty string.\<close>

definition map_index :: "(string \<rightharpoonup> string) \<Rightarrow> string \<Rightarrow> string" where
  "map_index m k = (case m k of None \<Rightarrow> [] | Some v \<Rightarrow> v)"

text \<open>
  \<^verbatim>\<open>fetchSpansForTables\<close> returns the triple (spans, updated expression, error) of the
  source; a nil slice is \<open>[]\<close> and a nil error is \<open>None\<close>. The parameters stand for code
  of other packages: \<open>PrimaryIndexSpan\<close> is the descriptor's method at the
  executor's codec, \<open>ConstrainPrimaryIndexSpanByFilter\<close> is the function of \<^verbatim>\<open>cdceval\<close>,
  and \<open>OptVirtualColumns\<close>, \<open>OptVirtualColumnsNull\<close> are the two option constants of
  \<^verbatim>\<open>changefeedbase\<close>. Indexing the empty \<^verbatim>\<open>TargetSpecifications\<close> panics.
\<close>

definition fetchSpansForTables ::
  "('desc \<Rightarrow> Span) \<Rightarrow>
   (string \<Rightarrow> 'desc \<Rightarrow> 'target \<Rightarrow> bool \<Rightarrow> Span list \<times> string \<times> error option) \<Rightarrow>
   string \<Rightarrow> string \<Rightarrow>
   'desc list \<Rightarrow> 'target ChangefeedDetails \<Rightarrow> Span list \<times> string \<times> error option" where
  "fetchSpansForTables PrimaryIndexSpan ConstrainPrimaryIndexSpanByFilter
       OptVirtualColumns OptVirtualColumnsNull tableDescs details =
     (if Select details = []
      then (map PrimaryIndexSpan tableDescs, [], None)
      else if length tableDescs \<noteq> 1
      then ([], [],
            Some (PgError InvalidParameterValue
                    (''filter can only be used with single target (found ''
                       @ formatDecimal (length tableDescs) @ '')'')))
      else (case TargetSpecifications details of
              [] \<Rightarrow> ([], [], Some IndexOutOfRange)
            | target # _ \<Rightarrow>
                (let includeVirtual =
                       (map_index (Opts details) OptVirtualColumns = OptVirtualColumnsNull)
                 in ConstrainPrimaryIndexSpanByFilter
                      (Select details) (hd tableDescs) target includeVirtual)))"

subsection \<open>The replan settings\<close>

text \<open>
  Modelled from the spec: the registration functions of the package \<^verbatim>\<open>settings\<close>. A
  registered setting is the record of what was registered: its class, key,
  description, default and validators. \<^verbatim>\<open>time.Duration\<close> counts nanoseconds.
\<close>

datatype settingClass = TenantWritable

datatype durationValidator = PositiveDuration

record FloatSetting =
  floatClass :: settingClass
  floatKey :: string
  floatDescription :: string
  floatDefault :: real

record DurationSetting =
  durationClass :: settingClass
  durationKey :: string
  durationDescription :: string
  durationDefault :: int
  durationValidators :: "durationValidator list"

definition Nanosecond :: int where "Nanosecond = 1"
definition Second :: int where "Second = 1000000000 * Nanosecond"
definition Minute :: int where "Minute = 60 * Second"

definition replanChangefeedThreshold :: FloatSetting where
  "replanChangefeedThreshold =
     \<lparr>floatClass = TenantWritable,
      floatKey = ''changefeed.replan_flow_threshold'',
      floatDescription = ''fraction of initial flow instances that would be added or updated above which a redistribution would occur (0=disabled)'',
      floatDefault = 0\<rparr>"

definition replanChangefeedFrequency :: DurationSetting where
  "replanChangefeedFrequency =
     \<lparr>durationClass = TenantWritable,
      durationKey = ''changefeed.replan_flow_frequency'',
      durationDescription = ''frequency at which changefeed checks to see if redistributing would change its physical execution plan'',
      durationDefault = 10 * Minute,
      durationValidators = [PositiveDuration]\<rparr>"

text \<open>
  Modelled from the spec: what the validator \<^verbatim>\<open>settings.PositiveDuration\<close> accepts (the
  check frequency "must be a positive duration"), and when a value may be stored in a
  duration setting: when every registered validator accepts it.
\<close>

fun validatorAccepts :: "durationValidator \<Rightarrow> int \<Rightarrow> bool" where
  "validatorAccepts PositiveDuration v = (0 < v)"

definition durationSettingAccepts :: "DurationSetting \<Rightarrow> int \<Rightarrow> bool" where
  "durationSettingAccepts s v = list_all (\<lambda>f. validatorAccepts f v) (durationValidators s)"

text \<open>
  Modelled from the spec: the decision of \<^verbatim>\<open>sql.ReplanOnChangedFraction\<close>, declared in
  the package \<^verbatim>\<open>sql\<close>. The flow is replanned when the fraction of changed instances
  exceeds the threshold, and a threshold of 0 means never.
\<close>

definition ReplanOnChangedFraction :: "real \<Rightarrow> real \<Rightarrow> bool" where
  "ReplanOnChangedFraction threshold changed = (threshold \<noteq> 0 \<and> threshold < changed)"

subsection \<open>Span groups\<close>

text \<open>
  Modelled from the spec: \<^verbatim>\<open>roachpb.SpanGroup\<close>, with its methods \<^verbatim>\<open>Add\<close> and
  \<^verbatim>\<open>Encloses\<close>, declared in the package \<^verbatim>\<open>roachpb\<close>. A span
  group is the set of keys covered by the spans added to it, and it encloses a span
  when every key of the span is covered. The group is kept as the list of the spans
  added; \<open>reach g k\<close> walks from the key \<open>k\<close> to the first key at or after it that no
  span of the group covers, and a span is enclosed when the walk from its start key
  gets to its end key.
\<close>

type_synonym SpanGroup = "Span list"

definition emptySpanGroup :: SpanGroup where
  "emptySpanGroup = []"

definition Add :: "SpanGroup \<Rightarrow> Span list \<Rightarrow> SpanGroup" where
  "Add g spans = g @ spans"

definition covering :: "Key \<Rightarrow> Span \<Rightarrow> bool" where
  "covering k s = (Key s \<le> k \<and> k < EndKey s)"

function reach :: "SpanGroup \<Rightarrow> Key \<Rightarrow> Key" where
  "reach g k = (case find (covering k) g of None \<Rightarrow> k | Some s \<Rightarrow> reach g (EndKey s))"
  by pat_completeness auto
termination
proof (relation "measure (\<lambda>(g, k). length (filter (\<lambda>t. k < EndKey t) g))")
  show "wf (measure (\<lambda>(g, k). length (filter (\<lambda>t. k < EndKey t) g)))"
    by simp
next
  fix g :: SpanGroup and k :: Key and s :: Span
  assume "find (covering k) g = Some s"
  then have mem: "s \<in> set g" and lt: "k < EndKey s"
    by (auto simp: find_Some_iff covering_def)
  let ?live = "filter (\<lambda>t. k < EndKey t) g"
  have "filter (\<lambda>t. EndKey s < EndKey t) g = filter (\<lambda>t. EndKey s < EndKey t) ?live"
    using lt by (auto intro!: filter_cong)
  moreover have "length (filter (\<lambda>t. EndKey s < EndKey t) ?live) < length ?live"
    using mem lt by (intro length_filter_less [of s]) auto
  ultimately show "((g, EndKey s), (g, k)) \<in> measure (\<lambda>(g, k). length (filter (\<lambda>t. k < EndKey t) g))"
    by simp
qed

declare reach.simps [simp del]

definition Encloses :: "SpanGroup \<Rightarrow> Span \<Rightarrow> bool" where
  "Encloses g s = (EndKey s \<le> reach g (Key s))"

text \<open>The keys of a span and the keys a list of spans covers, for stating coverage.\<close>

definition span_keys :: "Span \<Rightarrow> Key set" where
  "span_keys s = {k. Key s \<le> k \<and> k < EndKey s}"

definition coverage :: "Span list \<Rightarrow> Key set" where
  "coverage spans = \<Union> (span_keys ` set spans)"

subsection \<open>Processor specifications (execinfrapb)\<close>

record ChangeAggregatorSpec_Watch =
  Span :: Span
  InitialResolved :: Timestamp

record ChangeAggregatorSpec_Checkpoint =
  Spans :: "Span list"
  Timestamp :: Timestamp

record Expression =
  Expr :: string

record 'target ChangeAggregatorSpec =
  Watches :: "ChangeAggregatorSpec_Watch list"
  Checkpoint :: ChangeAggregatorSpec_Checkpoint
  Feed :: "'target ChangefeedDetails"
  UserProto :: string
  JobID :: int
  Select :: Expression

record 'target ChangeFrontierSpec =
  TrackedSpans :: "Span list"
  Feed :: "'target ChangefeedDetails"
  JobID :: int
  UserProto :: string

datatype 'target ProcessorCoreUnion =
    ChangeAggregator "'target ChangeAggregatorSpec"
  | ChangeFrontier "'target ChangeFrontierSpec"

text \<open>\<^verbatim>\<open>changefeedResultTypes\<close>: the types returned by the changefeed stream.\<close>

datatype T = Bytes | String

definition changefeedResultTypes :: "T list" where
  "changefeedResultTypes = [Bytes, String, Bytes, Bytes]"

subsection \<open>The physical plan\<close>

text \<open>
  Modelled from the spec: \<^verbatim>\<open>physicalplan.PhysicalPlan\<close> and its two stage builders,
  declared in the package \<^verbatim>\<open>physicalplan\<close>. The specification describes the plan as a small graph:
  processors placed on nodes, and streams between them, the aggregators feeding the
  one frontier. A processor is named by its index in the plan; the result routers are
  the processors whose output is not consumed yet. \<^verbatim>\<open>AddNoInputStage\<close> adds one
  processor for each placement and makes them the result routers;
  \<^verbatim>\<open>AddSingleGroupStage\<close> adds one processor on the given node, connects every result
  router to it and leaves it as the only result router. The empty post-processing
  and ordering arguments of the source's calls are left out.
\<close>

record 'target ProcessorCorePlacement =
  SQLInstanceID :: int
  Core :: "'target ProcessorCoreUnion"

record 'target Processor =
  SQLInstanceID :: int
  Core :: "'target ProcessorCoreUnion"
  ResultTypes :: "T list"

record Stream =
  SourceProcessor :: nat
  DestProcessor :: nat

record 'target PhysicalPlan =
  Processors :: "'target Processor list"
  Streams :: "Stream list"
  ResultRouters :: "nat list"
  PlanToStreamColMap :: "int list"

definition NewPhysicalPlan :: "'target PhysicalPlan" where
  "NewPhysicalPlan = \<lparr>Processors = [], Streams = [], ResultRouters = [], PlanToStreamColMap = []\<rparr>"

definition AddNoInputStage ::
  "'target PhysicalPlan \<Rightarrow> 'target ProcessorCorePlacement list \<Rightarrow> T list \<Rightarrow> 'target PhysicalPlan" where
  "AddNoInputStage p corePlacements outputTypes =
     p\<lparr>Processors := Processors p @
          map (\<lambda>cp. \<lparr>SQLInstanceID = ProcessorCorePlacement.SQLInstanceID cp,
                     Core = ProcessorCorePlacement.Core cp,
                     ResultTypes = outputTypes\<rparr>) corePlacements,
       ResultRouters := [length (Processors p) ..< length (Processors p) + length corePlacements]\<rparr>"

definition AddSingleGroupStage ::
  "'target PhysicalPlan \<Rightarrow> int \<Rightarrow> 'target ProcessorCoreUnion \<Rightarrow> T list \<Rightarrow> 'target PhysicalPlan" where
  "AddSingleGroupStage p sqlInstanceID core outputTypes =
     (let pIdx = length (Processors p)
      in p\<lparr>Processors := Processors p @
               [\<lparr>SQLInstanceID = sqlInstanceID, Core = core, ResultTypes = outputTypes\<rparr>],
            Streams := Streams p @
               map (\<lambda>r. \<lparr>SourceProcessor = r, DestProcessor = pIdx\<rparr>) (ResultRouters p),
            ResultRouters := [pIdx]\<rparr>)"

subsection \<open>The planner and the job's execution context\<close>

text \<open>\<^verbatim>\<open>sql.SpanPartition\<close>: the spans assigned to one SQL instance.\<close>

record SpanPartition =
  SQLInstanceID :: int
  Spans :: "Span list"

text \<open>
  The methods of \<^verbatim>\<open>sql.DistSQLPlanner\<close> that the plan closure calls, as parameters: the
  gateway's identifier, the planning context it creates, the partitioning of spans by
  ownership (which can fail) and the finalisation of a plan.
\<close>

record ('target, 'ctx) DistSQLPlanner =
  GatewayID :: int
  NewPlanningCtx :: 'ctx
  PartitionSpans :: "'ctx \<Rightarrow> Span list \<Rightarrow> error + SpanPartition list"
  FinalizePlan :: "'ctx \<Rightarrow> 'target PhysicalPlan \<Rightarrow> 'target PhysicalPlan"

text \<open>
  The testing knob \<^verbatim>\<open>OnDistflowSpec\<close> is a callback that gets the slice of pointers to
  the aggregator specifications and the pointer to the frontier specification and may
  write through them. Its effect is the specification it leaves at each index and the
  frontier specification it leaves; the slice is passed by value, so its length stays.
  A nil knob is \<open>None\<close>.
\<close>

record 'target TestingKnobs =
  OnDistflowSpec ::
    "('target ChangeAggregatorSpec list \<Rightarrow> 'target ChangeFrontierSpec \<Rightarrow>
        (nat \<Rightarrow> 'target ChangeAggregatorSpec) \<times> 'target ChangeFrontierSpec) option"

text \<open>
  \<^verbatim>\<open>sql.JobExecContext\<close>: \<open>UserEncodeProto\<close> is \<^verbatim>\<open>execCtx.User().EncodeProto()\<close> and
  \<open>ChangefeedKnobs\<close> is \<^verbatim>\<open>ExecCfg().DistSQLSrv.TestingKnobs.Changefeed\<close> when it is a
  non-nil \<^verbatim>\<open>*TestingKnobs\<close>.
\<close>

record 'target JobExecContext =
  UserEncodeProto :: string
  ChangefeedKnobs :: "'target TestingKnobs option"

subsection \<open>The plan closure: makePlan\<close>

text \<open>Lines 326 to 337: the span partitions.\<close>

definition makePlan_spanPartitions ::
  "('target, 'ctx) DistSQLPlanner \<Rightarrow> 'ctx \<Rightarrow> 'target ChangefeedDetails \<Rightarrow> Span list \<Rightarrow>
   error + SpanPartition list" where
  "makePlan_spanPartitions dsp planCtx details trackedSpans =
     (if SinkURI details = []
      then Inr [\<lparr>SQLInstanceID = GatewayID dsp, Spans = trackedSpans\<rparr>]
      else PartitionSpans dsp planCtx trackedSpans)"

text \<open>Lines 352 to 362: the watches of one partition.\<close>

definition makePlan_watches ::
  "SpanGroup \<Rightarrow> Checkpoint \<Rightarrow> Timestamp \<Rightarrow> Span list \<Rightarrow> ChangeAggregatorSpec_Watch list" where
  "makePlan_watches checkpointSpanGroup checkpoint initialHighWater spans =
     map (\<lambda>nodeSpan.
            \<lparr>Span = nodeSpan,
             InitialResolved =
               (if Encloses checkpointSpanGroup nodeSpan
                then Checkpoint.Timestamp checkpoint else initialHighWater)\<rparr>) spans"

text \<open>Lines 339 to 372: one aggregator specification for each partition.\<close>

definition makePlan_aggregatorSpecs ::
  "'target JobExecContext \<Rightarrow> int \<Rightarrow> 'target ChangefeedDetails \<Rightarrow> Timestamp \<Rightarrow> Checkpoint \<Rightarrow>
   string \<Rightarrow> SpanPartition list \<Rightarrow> 'target ChangeAggregatorSpec list" where
  "makePlan_aggregatorSpecs execCtx jobID details initialHighWater checkpoint selectClause
       spanPartitions =
     (let aggregatorCheckpoint =
            \<lparr>ChangeAggregatorSpec_Checkpoint.Spans = Checkpoint.Spans checkpoint,
             Timestamp = Checkpoint.Timestamp checkpoint\<rparr>;
          checkpointSpanGroup = Add emptySpanGroup (Checkpoint.Spans checkpoint)
      in map (\<lambda>sp.
               \<lparr>Watches = makePlan_watches checkpointSpanGroup checkpoint initialHighWater
                            (SpanPartition.Spans sp),
                Checkpoint = aggregatorCheckpoint,
                Feed = details,
                UserProto = UserEncodeProto execCtx,
                JobID = jobID,
                Select = \<lparr>Expr = selectClause\<rparr>\<rparr>) spanPartitions)"

text \<open>Lines 378 to 383: the frontier specification.\<close>

definition makePlan_changeFrontierSpec ::
  "'target JobExecContext \<Rightarrow> int \<Rightarrow> 'target ChangefeedDetails \<Rightarrow> Span list \<Rightarrow>
   'target ChangeFrontierSpec" where
  "makePlan_changeFrontierSpec execCtx jobID details trackedSpans =
     \<lparr>TrackedSpans = trackedSpans,
      Feed = details,
      JobID = jobID,
      UserProto = UserEncodeProto execCtx\<rparr>"

text \<open>Lines 385 to 388: the testing knob, when there is one, sees and may change both.\<close>

definition makePlan_knobs ::
  "'target JobExecContext \<Rightarrow> 'target ChangeAggregatorSpec list \<Rightarrow> 'target ChangeFrontierSpec \<Rightarrow>
   'target ChangeAggregatorSpec list \<times> 'target ChangeFrontierSpec" where
  "makePlan_knobs execCtx aggregatorSpecs changeFrontierSpec =
     (case ChangefeedKnobs execCtx of
        None \<Rightarrow> (aggregatorSpecs, changeFrontierSpec)
      | Some knobs \<Rightarrow>
          (case OnDistflowSpec knobs of
             None \<Rightarrow> (aggregatorSpecs, changeFrontierSpec)
           | Some f \<Rightarrow>
               (let (specAt, frontier) = f aggregatorSpecs changeFrontierSpec
                in (map specAt [0 ..< length aggregatorSpecs], frontier))))"

text \<open>
  The specifications the closure builds, after the knob: the pair the physical plan is
  made of.
\<close>

definition makePlan_specs ::
  "'target JobExecContext \<Rightarrow> int \<Rightarrow> 'target ChangefeedDetails \<Rightarrow> Timestamp \<Rightarrow> Checkpoint \<Rightarrow>
   Span list \<Rightarrow> string \<Rightarrow> SpanPartition list \<Rightarrow>
   'target ChangeAggregatorSpec list \<times> 'target ChangeFrontierSpec" where
  "makePlan_specs execCtx jobID details initialHighWater checkpoint trackedSpans selectClause
       spanPartitions =
     makePlan_knobs execCtx
       (makePlan_aggregatorSpecs execCtx jobID details initialHighWater checkpoint selectClause
          spanPartitions)
       (makePlan_changeFrontierSpec execCtx jobID details trackedSpans)"

text \<open>Lines 390 to 405: the two stages of the physical plan.\<close>

definition makePlan_stages ::
  "('target, 'ctx) DistSQLPlanner \<Rightarrow> SpanPartition list \<Rightarrow>
   'target ChangeAggregatorSpec list \<times> 'target ChangeFrontierSpec \<Rightarrow> 'target PhysicalPlan" where
  "makePlan_stages dsp spanPartitions specs =
     (let aggregatorSpecs = fst specs;
          changeFrontierSpec = snd specs;
          aggregatorCorePlacement =
            map (\<lambda>(sp, spec).
                   \<lparr>ProcessorCorePlacement.SQLInstanceID = SpanPartition.SQLInstanceID sp,
                    Core = ChangeAggregator spec\<rparr>)
                (zip spanPartitions aggregatorSpecs);
          p = NewPhysicalPlan;
          p = AddNoInputStage p aggregatorCorePlacement changefeedResultTypes;
          p = AddSingleGroupStage p (GatewayID dsp) (ChangeFrontier changeFrontierSpec)
                changefeedResultTypes
      in p\<lparr>PlanToStreamColMap := [1, 2, 3]\<rparr>)"

text \<open>
  The closure \<^verbatim>\<open>makePlan\<close> returns, applied to the planner: the plan and the planning
  context, or the error of the partitioning.
\<close>

definition makePlan ::
  "'target JobExecContext \<Rightarrow> int \<Rightarrow> 'target ChangefeedDetails \<Rightarrow> Timestamp \<Rightarrow> Checkpoint \<Rightarrow>
   Span list \<Rightarrow> string \<Rightarrow> ('target, 'ctx) DistSQLPlanner \<Rightarrow>
   error + 'target PhysicalPlan \<times> 'ctx" where
  "makePlan execCtx jobID details initialHighWater checkpoint trackedSpans selectClause dsp =
     (let planCtx = NewPlanningCtx dsp
      in case makePlan_spanPartitions dsp planCtx details trackedSpans of
           Inl err \<Rightarrow> Inl err
         | Inr spanPartitions \<Rightarrow>
             (let specs = makePlan_specs execCtx jobID details initialHighWater checkpoint
                            trackedSpans selectClause spanPartitions;
                  p = makePlan_stages dsp spanPartitions specs
              in Inr (FinalizePlan dsp planCtx p, planCtx)))"

subsection \<open>The result writer: changefeedResultWriter\<close>

text \<open>
  A row is a Go slice: a window (offset and length) on a backing array. The store maps
  the address of an array to its elements; addresses are the indices of the list, and
  a new array gets the next one. A nil slice is \<open>None\<close>.
\<close>

type_synonym 'd heap = "'d list list"

record slice =
  sliceArray :: nat
  sliceOff :: nat
  sliceLen :: nat

definition validSlice :: "'d heap \<Rightarrow> slice option \<Rightarrow> bool" where
  "validSlice h s =
     (case s of
        None \<Rightarrow> True
      | Some sl \<Rightarrow> sliceArray sl < length h \<and> sliceOff sl + sliceLen sl \<le> length (h ! sliceArray sl))"

definition readSlice :: "'d heap \<Rightarrow> slice option \<Rightarrow> 'd list" where
  "readSlice h s =
     (case s of
        None \<Rightarrow> []
      | Some sl \<Rightarrow> take (sliceLen sl) (drop (sliceOff sl) (h ! sliceArray sl)))"

text \<open>A write of the value \<open>v\<close> at the index \<open>i\<close> of the array at the address \<open>a\<close>.\<close>

definition writeArray :: "'d heap \<Rightarrow> nat \<times> nat \<times> 'd \<Rightarrow> 'd heap" where
  "writeArray h w = (case w of (a, i, v) \<Rightarrow> h[a := (h ! a)[i := v]])"

text \<open>
  \<^verbatim>\<open>append(tree.Datums(nil), row...)\<close>: appending nothing to the nil slice gives the nil
  slice; otherwise the elements are copied into a new array.
\<close>

definition appendToNil :: "'d heap \<Rightarrow> slice option \<Rightarrow> 'd heap \<times> slice option" where
  "appendToNil h row =
     (let elems = readSlice h row
      in if elems = [] then (h, None)
         else (h @ [elems], Some \<lparr>sliceArray = length h, sliceOff = 0, sliceLen = length elems\<rparr>))"

text \<open>
  The \<^verbatim>\<open>select\<close> statement of \<^verbatim>\<open>AddRow\<close> has two cases: the context is done, or the
  channel takes the row. What the goroutine meets each time it looks is given by a
  schedule: the error \<^verbatim>\<open>ctx.Err()\<close> reports (nil while the context is not done), whether
  the channel can take a value, and which case the runtime picks when both can proceed.
  \<open>pollSelect\<close> is one look; \<open>blockingSelect\<close> looks again until a case can proceed, and
  has no value when none ever can.
\<close>

record selectEnv =
  ctxErr :: "error option"
  chanReady :: bool
  pickDone :: bool

datatype selected = CtxDone error | Sent

definition pollSelect :: "selectEnv \<Rightarrow> selected option" where
  "pollSelect e =
     (case ctxErr e of
        Some err \<Rightarrow> if chanReady e \<and> \<not> pickDone e then Some Sent else Some (CtxDone err)
      | None \<Rightarrow> if chanReady e then Some Sent else None)"

partial_function (option) blockingSelect :: "(nat \<Rightarrow> selectEnv) \<Rightarrow> nat \<Rightarrow> selected option" where
  "blockingSelect sched t =
     (case pollSelect (sched t) of
        Some r \<Rightarrow> Some r
      | None \<Rightarrow> blockingSelect sched (Suc t))"

text \<open>
  The writer: \<open>rowsCh\<close> is the channel, as the rows sent on it so far, and
  \<open>rowsAffected\<close> is a Go \<^verbatim>\<open>int\<close>, 64 bits wide, whose addition wraps around.
  \<^verbatim>\<open>AddRow\<close> returns the store, the writer and the error, or nothing when it blocks
  for ever.
\<close>

record changefeedResultWriter =
  rowsCh :: "slice option list"
  rowsAffected :: "64 word"
  err :: "error option"

definition makeChangefeedResultWriter :: "slice option list \<Rightarrow> changefeedResultWriter" where
  "makeChangefeedResultWriter ch = \<lparr>rowsCh = ch, rowsAffected = 0, err = None\<rparr>"

definition AddRow ::
  "(nat \<Rightarrow> selectEnv) \<Rightarrow> 'd heap \<Rightarrow> changefeedResultWriter \<Rightarrow> slice option \<Rightarrow>
   ('d heap \<times> changefeedResultWriter \<times> error option) option" where
  "AddRow sched h w row =
     (let (h', row') = appendToNil h row
      in case blockingSelect sched 0 of
           None \<Rightarrow> None
         | Some (CtxDone e) \<Rightarrow> Some (h', w, Some e)
         | Some Sent \<Rightarrow> Some (h', w\<lparr>rowsCh := rowsCh w @ [row']\<rparr>, None))"

definition IncrementRowsAffected ::
  "changefeedResultWriter \<Rightarrow> 64 word \<Rightarrow> changefeedResultWriter" where
  "IncrementRowsAffected w n = w\<lparr>rowsAffected := rowsAffected w + n\<rparr>"

definition SetError :: "changefeedResultWriter \<Rightarrow> error option \<Rightarrow> changefeedResultWriter" where
  "SetError w e = w\<lparr>err := e\<rparr>"

definition Err :: "changefeedResultWriter \<Rightarrow> error option" where
  "Err w = err w"

text \<open>A look at which the select cannot proceed: the context is not done and the channel is full.\<close>

definition idle :: "selectEnv \<Rightarrow> bool" where
  "idle e = (ctxErr e = None \<and> \<not> chanReady e)"

text \<open>
  The testing knob is nil outside tests: either there are no changefeed knobs or their
  \<^verbatim>\<open>OnDistflowSpec\<close> is nil.
\<close>

definition noOnDistflowSpec :: "'target JobExecContext \<Rightarrow> bool" where
  "noOnDistflowSpec execCtx =
     (case ChangefeedKnobs execCtx of None \<Rightarrow> True | Some knobs \<Rightarrow> OnDistflowSpec knobs = None)"

text \<open>The specifications a plan carries, read off its processors in order.\<close>

definition aggregatorSpecsOf :: "'target PhysicalPlan \<Rightarrow> 'target ChangeAggregatorSpec list" where
  "aggregatorSpecsOf p =
     concat (map (\<lambda>proc. case Processor.Core proc of ChangeAggregator spec \<Rightarrow> [spec] | ChangeFrontier _ \<Rightarrow> [])
               (Processors p))"

definition frontierSpecsOf :: "'target PhysicalPlan \<Rightarrow> 'target ChangeFrontierSpec list" where
  "frontierSpecsOf p =
     concat (map (\<lambda>proc. case Processor.Core proc of ChangeAggregator _ \<Rightarrow> [] | ChangeFrontier spec \<Rightarrow> [spec])
               (Processors p))"

subsection \<open>A scenario\<close>

text \<open>
  Two tracked spans, from key a to key m and from key m to key z, no sink, and a
  checkpoint that covers the first span.
\<close>

definition scenario_execCtx :: "unit JobExecContext" where
  "scenario_execCtx = \<lparr>UserEncodeProto = ''root'', ChangefeedKnobs = None\<rparr>"

definition scenario_details :: "unit ChangefeedDetails" where
  "scenario_details =
     \<lparr>SinkURI = [], Select = [], StatementTime = \<lparr>WallTime = 5, Logical = 0\<rparr>,
      Opts = Map.empty, TargetSpecifications = [()]\<rparr>"

definition scenario_trackedSpans :: "Span list" where
  "scenario_trackedSpans = [\<lparr>Key = [97], EndKey = [109]\<rparr>, \<lparr>Key = [109], EndKey = [122]\<rparr>]"

definition scenario_checkpoint :: Checkpoint where
  "scenario_checkpoint =
     \<lparr>Checkpoint.Spans = [\<lparr>Key = [97], EndKey = [109]\<rparr>],
      Timestamp = \<lparr>WallTime = 20, Logical = 0\<rparr>\<rparr>"

definition scenario_dsp :: "(unit, unit) DistSQLPlanner" where
  "scenario_dsp =
     \<lparr>GatewayID = 1, NewPlanningCtx = (),
      PartitionSpans = (\<lambda>_ spans. Inr (map (\<lambda>s. \<lparr>SQLInstanceID = 2, Spans = [s]\<rparr>) spans)),
      FinalizePlan = (\<lambda>_ p. p)\<rparr>"

text \<open>The same request with a sink, and the partitioning the scenario's planner gives it.\<close>

definition scenario_sinkDetails :: "unit ChangefeedDetails" where
  "scenario_sinkDetails = scenario_details\<lparr>SinkURI := ''kafka://broker''\<rparr>"

definition scenario_partitions :: "SpanPartition list" where
  "scenario_partitions =
     [\<lparr>SQLInstanceID = 2, Spans = [\<lparr>Key = [97], EndKey = [109]\<rparr>]\<rparr>,
      \<lparr>SQLInstanceID = 2, Spans = [\<lparr>Key = [109], EndKey = [122]\<rparr>]\<rparr>]"








text \<open>
  A row of two values on an array of three; a channel that takes the row at the third
  look, and a context that is cancelled from the second look on; two later writes to
  the producer's array.
\<close>

definition scenario_idle :: selectEnv where
  "scenario_idle = \<lparr>ctxErr = None, chanReady = False, pickDone = False\<rparr>"

definition scenario_accepting :: "nat \<Rightarrow> selectEnv" where
  "scenario_accepting t = (if t = 2 then scenario_idle\<lparr>chanReady := True\<rparr> else scenario_idle)"

definition scenario_cancelled :: "nat \<Rightarrow> selectEnv" where
  "scenario_cancelled t = (if 1 \<le> t then scenario_idle\<lparr>ctxErr := Some Canceled\<rparr> else scenario_idle)"

definition scenario_heap :: "nat heap" where
  "scenario_heap = [[10, 20, 30]]"

definition scenario_row :: "slice option" where
  "scenario_row = Some \<lparr>sliceArray = 0, sliceOff = 0, sliceLen = 2\<rparr>"

definition scenario_writer :: changefeedResultWriter where
  "scenario_writer = \<lparr>rowsCh = [], rowsAffected = 0, err = None\<rparr>"

definition scenario_heap_copied :: "nat heap" where
  "scenario_heap_copied = [[10, 20, 30], [10, 20]]"

definition scenario_writes :: "(nat \<times> nat \<times> nat) list" where
  "scenario_writes = [(0, 0, 99), (0, 1, 98)]"

definition scenario_row_copied :: "slice option" where
  "scenario_row_copied = Some \<lparr>sliceArray = 1, sliceOff = 0, sliceLen = 2\<rparr>"

section \<open>Properties\<close>

subsection \<open>Span resolution\<close>

lemma formatDecimal_two: "formatDecimal (Suc (Suc 0)) = ''2''"
  by code_simp

text \<open>
  Claim C3. When a row filter (a non-empty \<^verbatim>\<open>Select\<close>) comes with more than one target
  table, span resolution fails with the invalid-request error (the code's
  \<^verbatim>\<open>pgcode.InvalidParameterValue\<close>) and returns no spans; when there is no filter, it
  succeeds with one primary-index span per table descriptor, in order, and the empty
  updated expression.
\<close>

theorem fetchSpansForTables_filter_multi_target:
  "(ChangefeedDetails.Select details \<noteq> [] \<and> 1 < length tableDescs \<longrightarrow>
      fetchSpansForTables pis cf ov ovn tableDescs details
        = ([], [],
           Some (PgError InvalidParameterValue
                  (''filter can only be used with single target (found ''
                     @ formatDecimal (length tableDescs) @ '')'')))) \<and>
   (ChangefeedDetails.Select details = [] \<longrightarrow>
      fetchSpansForTables pis cf ov ovn tableDescs details
        = (map pis tableDescs, [], None) \<and>
      length (fst (fetchSpansForTables pis cf ov ovn tableDescs details)) = length tableDescs \<and>
      (\<forall>i < length tableDescs.
          fst (fetchSpansForTables pis cf ov ovn tableDescs details) ! i = pis (tableDescs ! i)))"
  by (simp add: fetchSpansForTables_def)

theorem fetchSpansForTables_filter_multi_target_witness:
  "fetchSpansForTables (\<lambda>d. \<lparr>Key = [d], EndKey = [d + 1]\<rparr>) (\<lambda>_ _ _ _. ([], [], None))
       ''virtual_columns'' ''null'' [1, 2]
       \<lparr>SinkURI = ''kafka://sink'', Select = ''a > 1'', StatementTime = emptyTimestamp,
        Opts = Map.empty, TargetSpecifications = [(), ()]\<rparr>
     = ([], [], Some (PgError InvalidParameterValue
                       ''filter can only be used with single target (found 2)'')) \<and>
   fetchSpansForTables (\<lambda>d. \<lparr>Key = [d], EndKey = [d + 1]\<rparr>) (\<lambda>_ _ _ _. ([], [], None))
       ''virtual_columns'' ''null'' [1, 2]
       \<lparr>SinkURI = ''kafka://sink'', Select = [], StatementTime = emptyTimestamp,
        Opts = Map.empty, TargetSpecifications = [(), ()]\<rparr>
     = ([\<lparr>Key = [1], EndKey = [2]\<rparr>, \<lparr>Key = [2], EndKey = [3]\<rparr>], [], None)"
  using fetchSpansForTables_filter_multi_target
          [of "\<lparr>SinkURI = ''kafka://sink'', Select = ''a > 1'', StatementTime = emptyTimestamp,
                Opts = Map.empty, TargetSpecifications = [(), ()]\<rparr>"
              "[1, 2]" "\<lambda>d. \<lparr>Key = [d], EndKey = [d + 1]\<rparr>" "\<lambda>_ _ _ _. ([], [], None)"
              "''virtual_columns''" "''null''"]
        fetchSpansForTables_filter_multi_target
          [of "\<lparr>SinkURI = ''kafka://sink'', Select = [], StatementTime = emptyTimestamp,
                Opts = Map.empty, TargetSpecifications = [(), ()]\<rparr>"
              "[1, 2]" "\<lambda>d. \<lparr>Key = [d], EndKey = [d + 1]\<rparr>" "\<lambda>_ _ _ _. ([], [], None)"
              "''virtual_columns''" "''null''"]
  by (simp add: formatDecimal_two)

subsection \<open>The replan settings\<close>

text \<open>
  Claim C9. The replan threshold defaults to 0, the value at which the replan decision
  never fires; the replan check frequency defaults to 10 minutes, and the setting is
  registered with the positive-duration validator, so it takes exactly the positive
  durations, its default among them.
\<close>

theorem replan_settings_defaults:
  "floatDefault replanChangefeedThreshold = 0 \<and>
   \<not> ReplanOnChangedFraction (floatDefault replanChangefeedThreshold) changed \<and>
   durationDefault replanChangefeedFrequency = 10 * Minute \<and>
   durationDefault replanChangefeedFrequency = 600 * Second \<and>
   durationDefault replanChangefeedFrequency = 600000000000 * Nanosecond \<and>
   durationValidators replanChangefeedFrequency = [PositiveDuration] \<and>
   durationSettingAccepts replanChangefeedFrequency v = (0 < v) \<and>
   durationSettingAccepts replanChangefeedFrequency (durationDefault replanChangefeedFrequency)"
  by (simp add: replanChangefeedThreshold_def replanChangefeedFrequency_def
        ReplanOnChangedFraction_def durationSettingAccepts_def Minute_def Second_def
        Nanosecond_def)

theorem replan_settings_defaults_witness:
  "\<not> ReplanOnChangedFraction (floatDefault replanChangefeedThreshold) (1 / 2) \<and>
   durationSettingAccepts replanChangefeedFrequency (5 * Second) \<and>
   \<not> durationSettingAccepts replanChangefeedFrequency 0"
  using replan_settings_defaults [of "1 / 2" "5 * Second"]
        replan_settings_defaults [of "1 / 2" 0]
  by (simp add: Second_def Nanosecond_def)

subsection \<open>Span groups\<close>

text \<open>
  The walk of \<open>reach\<close> stops at a key that no span of the group covers, and every
  key it passes is covered; so a group encloses a span exactly when the keys of the
  span are among the keys the group covers.
\<close>

lemma covering_coverage: "s \<in> set g \<Longrightarrow> covering k s \<Longrightarrow> k \<in> coverage g"
  by (auto simp: coverage_def span_keys_def covering_def)

lemma find_None_coverage: "find (covering k) g = None \<longleftrightarrow> k \<notin> coverage g"
  by (auto simp: find_None_iff coverage_def span_keys_def covering_def)

lemma reach_ge: "k \<le> reach g k"
proof (induction g k rule: reach.induct)
  case (1 g k)
  show ?case
  proof (cases "find (covering k) g")
    case None
    then show ?thesis by (simp add: reach.simps [of g k])
  next
    case (Some s)
    then have "k < EndKey s" by (auto simp: find_Some_iff covering_def)
    moreover have "EndKey s \<le> reach g (EndKey s)" using 1 Some by simp
    ultimately show ?thesis using Some by (simp add: reach.simps [of g k])
  qed
qed

lemma reach_uncovered: "reach g k \<notin> coverage g"
proof (induction g k rule: reach.induct)
  case (1 g k)
  show ?case
  proof (cases "find (covering k) g")
    case None
    then have "reach g k = k" by (simp add: reach.simps [of g k])
    moreover have "k \<notin> coverage g" using None find_None_coverage [of k g] by blast
    ultimately show ?thesis by simp
  next
    case (Some s)
    then show ?thesis using 1 by (simp add: reach.simps [of g k])
  qed
qed

lemma reach_covered: "k \<le> x \<Longrightarrow> x < reach g k \<Longrightarrow> x \<in> coverage g"
proof (induction g k rule: reach.induct)
  case (1 g k)
  show ?case
  proof (cases "find (covering k) g")
    case None
    then show ?thesis using 1 by (simp add: reach.simps [of g k])
  next
    case (Some s)
    then have s: "s \<in> set g" "Key s \<le> k" "k < EndKey s"
      by (auto simp: find_Some_iff covering_def)
    have r: "reach g k = reach g (EndKey s)" using Some by (simp add: reach.simps [of g k])
    show ?thesis
    proof (cases "x < EndKey s")
      case True
      then have "covering x s" using s 1(2) by (simp add: covering_def)
      then show ?thesis using s(1) by (rule covering_coverage [rotated])
    next
      case False
      then have "EndKey s \<le> x" by simp
      then show ?thesis using 1 Some r by simp
    qed
  qed
qed

lemma Encloses_iff_subset: "Encloses g s \<longleftrightarrow> span_keys s \<subseteq> coverage g"
proof
  assume "Encloses g s"
  then show "span_keys s \<subseteq> coverage g"
    by (auto simp: Encloses_def span_keys_def intro: reach_covered)
next
  assume sub: "span_keys s \<subseteq> coverage g"
  show "Encloses g s"
  proof (rule ccontr)
    assume "\<not> Encloses g s"
    then have "reach g (Key s) < EndKey s" by (simp add: Encloses_def)
    then have "reach g (Key s) \<in> span_keys s" by (simp add: span_keys_def reach_ge)
    then show False using sub reach_uncovered by blast
  qed
qed

subsection \<open>The plan closure\<close>

lemma makePlan_specs_no_knob:
  "noOnDistflowSpec execCtx \<Longrightarrow>
   makePlan_specs execCtx jobID details initialHighWater checkpoint trackedSpans selectClause
       spanPartitions =
     (makePlan_aggregatorSpecs execCtx jobID details initialHighWater checkpoint selectClause
        spanPartitions,
      makePlan_changeFrontierSpec execCtx jobID details trackedSpans)"
  by (simp add: makePlan_specs_def makePlan_knobs_def noOnDistflowSpec_def split: option.splits)

lemma length_makePlan_aggregatorSpecs:
  "length (makePlan_aggregatorSpecs execCtx jobID details initialHighWater checkpoint
             selectClause spanPartitions) = length spanPartitions"
  by (simp add: makePlan_aggregatorSpecs_def Let_def)

lemma nth_makePlan_aggregatorSpecs:
  "i < length spanPartitions \<Longrightarrow>
   makePlan_aggregatorSpecs execCtx jobID details initialHighWater checkpoint selectClause
       spanPartitions ! i =
     \<lparr>Watches = makePlan_watches (Checkpoint.Spans checkpoint) checkpoint initialHighWater
                  (SpanPartition.Spans (spanPartitions ! i)),
      Checkpoint = \<lparr>ChangeAggregatorSpec_Checkpoint.Spans = Checkpoint.Spans checkpoint,
                    Timestamp = Checkpoint.Timestamp checkpoint\<rparr>,
      Feed = details,
      UserProto = UserEncodeProto execCtx,
      JobID = jobID,
      Select = \<lparr>Expr = selectClause\<rparr>\<rparr>"
  by (simp add: makePlan_aggregatorSpecs_def Let_def Add_def emptySpanGroup_def)

lemma length_fst_makePlan_specs:
  "length (fst (makePlan_specs execCtx jobID details initialHighWater checkpoint trackedSpans
                  selectClause spanPartitions)) = length spanPartitions"
  by (simp add: makePlan_specs_def makePlan_knobs_def length_makePlan_aggregatorSpecs
        split: option.splits prod.splits)

lemma Processors_makePlan_stages:
  "Processors (makePlan_stages dsp spanPartitions specs) =
     map (\<lambda>(sp, spec). \<lparr>Processor.SQLInstanceID = SpanPartition.SQLInstanceID sp,
                         Core = ChangeAggregator spec,
                         ResultTypes = changefeedResultTypes\<rparr>)
         (zip spanPartitions (fst specs))
     @ [\<lparr>Processor.SQLInstanceID = GatewayID dsp, Core = ChangeFrontier (snd specs),
         ResultTypes = changefeedResultTypes\<rparr>]"
  by (simp add: makePlan_stages_def AddNoInputStage_def AddSingleGroupStage_def
        NewPhysicalPlan_def Let_def case_prod_unfold)

lemma Streams_makePlan_stages:
  "Streams (makePlan_stages dsp spanPartitions specs) =
     map (\<lambda>r. \<lparr>SourceProcessor = r,
                DestProcessor = min (length spanPartitions) (length (fst specs))\<rparr>)
         [0 ..< min (length spanPartitions) (length (fst specs))]"
  by (simp add: makePlan_stages_def AddNoInputStage_def AddSingleGroupStage_def
        NewPhysicalPlan_def Let_def)

lemma ResultRouters_makePlan_stages:
  "ResultRouters (makePlan_stages dsp spanPartitions specs) =
     [min (length spanPartitions) (length (fst specs))]"
  by (simp add: makePlan_stages_def AddNoInputStage_def AddSingleGroupStage_def
        NewPhysicalPlan_def Let_def)

lemma aggregatorSpecsOf_makePlan_stages:
  "length (fst specs) = length spanPartitions \<Longrightarrow>
   aggregatorSpecsOf (makePlan_stages dsp spanPartitions specs) = fst specs"
proof -
  assume len: "length (fst specs) = length spanPartitions"
  have "concat (map (\<lambda>proc. case Processor.Core proc of ChangeAggregator spec \<Rightarrow> [spec]
                            | ChangeFrontier _ \<Rightarrow> [])
           (map (\<lambda>(sp, spec). \<lparr>Processor.SQLInstanceID = SpanPartition.SQLInstanceID sp,
                         Core = ChangeAggregator spec,
                         ResultTypes = changefeedResultTypes\<rparr>) (zip ps ss))) = ss"
    if "length ss = length ps" for ps :: "SpanPartition list" and ss :: "'a ChangeAggregatorSpec list"
    using that by (induction ss ps rule: list_induct2) auto
  from this [OF len] show ?thesis
    by (simp add: aggregatorSpecsOf_def Processors_makePlan_stages)
qed

lemma frontierSpecsOf_makePlan_stages:
  "frontierSpecsOf (makePlan_stages dsp spanPartitions specs) = [snd specs]"
proof -
  have "concat (map (\<lambda>proc. case Processor.Core proc of ChangeAggregator _ \<Rightarrow> []
                            | ChangeFrontier spec \<Rightarrow> [spec])
           (map (\<lambda>(sp, spec). \<lparr>Processor.SQLInstanceID = SpanPartition.SQLInstanceID sp,
                         Core = ChangeAggregator spec,
                         ResultTypes = changefeedResultTypes\<rparr>) xs)) = []"
    for xs :: "(SpanPartition \<times> 'a ChangeAggregatorSpec) list"
    by (induction xs) auto
  then show ?thesis
    by (simp add: frontierSpecsOf_def Processors_makePlan_stages)
qed

lemma makePlan_Inr:
  "makePlan_spanPartitions dsp (NewPlanningCtx dsp) details trackedSpans = Inr spanPartitions \<Longrightarrow>
   makePlan execCtx jobID details initialHighWater checkpoint trackedSpans selectClause dsp =
     Inr (FinalizePlan dsp (NewPlanningCtx dsp)
            (makePlan_stages dsp spanPartitions
               (makePlan_specs execCtx jobID details initialHighWater checkpoint trackedSpans
                  selectClause spanPartitions)),
          NewPlanningCtx dsp)"
  by (simp add: makePlan_def Let_def)

text \<open>
  Claim C1. When no testing knob is installed, the watch built for the span \<open>j\<close> of
  the partition \<open>i\<close> carries that span, and its initial resolved timestamp is the
  checkpoint's timestamp if every key of the span is covered by the checkpoint's spans,
  and the initial high-water otherwise.
\<close>

theorem makePlan_initial_resolved:
  assumes "noOnDistflowSpec execCtx"
    and "i < length spanPartitions"
    and "j < length (SpanPartition.Spans (spanPartitions ! i))"
  shows "(let aggregatorSpecs =
               fst (makePlan_specs execCtx jobID details initialHighWater checkpoint
                      trackedSpans selectClause spanPartitions);
             nodeSpan = SpanPartition.Spans (spanPartitions ! i) ! j;
             watch = Watches (aggregatorSpecs ! i) ! j
         in length aggregatorSpecs = length spanPartitions \<and>
            length (Watches (aggregatorSpecs ! i)) = length (SpanPartition.Spans (spanPartitions ! i)) \<and>
            Span watch = nodeSpan \<and>
            InitialResolved watch =
              (if span_keys nodeSpan \<subseteq> coverage (Checkpoint.Spans checkpoint)
               then Checkpoint.Timestamp checkpoint else initialHighWater))"
  using assms
  by (simp add: makePlan_specs_no_knob length_makePlan_aggregatorSpecs
        nth_makePlan_aggregatorSpecs makePlan_watches_def Encloses_iff_subset Let_def)

theorem makePlan_initial_resolved_witness:
  "noOnDistflowSpec scenario_execCtx \<and>
   InitialResolved
     (Watches (fst (makePlan_specs scenario_execCtx 7 scenario_details \<lparr>WallTime = 10, Logical = 0\<rparr>
                      scenario_checkpoint scenario_trackedSpans []
                      [\<lparr>SQLInstanceID = 1, Spans = scenario_trackedSpans\<rparr>]) ! 0) ! 0)
     = \<lparr>WallTime = 20, Logical = 0\<rparr> \<and>
   InitialResolved
     (Watches (fst (makePlan_specs scenario_execCtx 7 scenario_details \<lparr>WallTime = 10, Logical = 0\<rparr>
                      scenario_checkpoint scenario_trackedSpans []
                      [\<lparr>SQLInstanceID = 1, Spans = scenario_trackedSpans\<rparr>]) ! 0) ! 1)
     = \<lparr>WallTime = 10, Logical = 0\<rparr>"
  using makePlan_initial_resolved
          [of scenario_execCtx 0 "[\<lparr>SQLInstanceID = 1, Spans = scenario_trackedSpans\<rparr>]" 0
              7 scenario_details "\<lparr>WallTime = 10, Logical = 0\<rparr>" scenario_checkpoint
              scenario_trackedSpans "[]"]
        makePlan_initial_resolved
          [of scenario_execCtx 0 "[\<lparr>SQLInstanceID = 1, Spans = scenario_trackedSpans\<rparr>]" 1
              7 scenario_details "\<lparr>WallTime = 10, Logical = 0\<rparr>" scenario_checkpoint
              scenario_trackedSpans "[]"]
  by (simp add: noOnDistflowSpec_def scenario_execCtx_def scenario_trackedSpans_def
        scenario_checkpoint_def Encloses_iff_subset [symmetric] Encloses_def reach.simps
        covering_def Let_def)

text \<open>
  Claim C2. With an empty sink URI there is exactly one span partition, on the gateway,
  holding the tracked spans as they were given; the plan then has one aggregator, placed
  on the gateway.
\<close>

theorem makePlan_sinkless_single_partition:
  assumes "SinkURI details = []"
  shows "makePlan_spanPartitions dsp (NewPlanningCtx dsp) details trackedSpans =
           Inr [\<lparr>SQLInstanceID = GatewayID dsp, Spans = trackedSpans\<rparr>] \<and>
         (let spanPartitions = [\<lparr>SQLInstanceID = GatewayID dsp, Spans = trackedSpans\<rparr>];
              specs = makePlan_specs execCtx jobID details initialHighWater checkpoint
                        trackedSpans selectClause spanPartitions;
              p = makePlan_stages dsp spanPartitions specs
          in makePlan execCtx jobID details initialHighWater checkpoint trackedSpans
               selectClause dsp
               = Inr (FinalizePlan dsp (NewPlanningCtx dsp) p, NewPlanningCtx dsp) \<and>
             length (aggregatorSpecsOf p) = 1 \<and>
             Processor.SQLInstanceID (Processors p ! 0) = GatewayID dsp \<and>
             Processor.Core (Processors p ! 0) = ChangeAggregator (fst specs ! 0))"
proof -
  let ?parts = "[\<lparr>SQLInstanceID = GatewayID dsp, Spans = trackedSpans\<rparr>]"
  let ?specs = "makePlan_specs execCtx jobID details initialHighWater checkpoint
                  trackedSpans selectClause ?parts"
  have parts: "makePlan_spanPartitions dsp (NewPlanningCtx dsp) details trackedSpans = Inr ?parts"
    using assms by (simp add: makePlan_spanPartitions_def)
  have len: "length (fst ?specs) = length ?parts"
    by (rule length_fst_makePlan_specs)
  then obtain spec where spec: "fst ?specs = [spec]"
    by (cases "fst ?specs") auto
  have "length (aggregatorSpecsOf (makePlan_stages dsp ?parts ?specs)) = 1"
    using aggregatorSpecsOf_makePlan_stages [OF len, of dsp] spec by simp
  moreover have "Processors (makePlan_stages dsp ?parts ?specs) ! 0 =
      \<lparr>Processor.SQLInstanceID = GatewayID dsp, Core = ChangeAggregator (fst ?specs ! 0),
       ResultTypes = changefeedResultTypes\<rparr>"
    using spec by (simp add: Processors_makePlan_stages)
  ultimately show ?thesis
    using parts makePlan_Inr [OF parts] by (simp add: Let_def)
qed

theorem makePlan_sinkless_single_partition_witness:
  "SinkURI scenario_details = [] \<and>
   makePlan_spanPartitions scenario_dsp () scenario_details scenario_trackedSpans =
     Inr [\<lparr>SQLInstanceID = 1, Spans = scenario_trackedSpans\<rparr>] \<and>
   length (aggregatorSpecsOf
             (makePlan_stages scenario_dsp [\<lparr>SQLInstanceID = 1, Spans = scenario_trackedSpans\<rparr>]
                (makePlan_specs scenario_execCtx 7 scenario_details \<lparr>WallTime = 10, Logical = 0\<rparr>
                   scenario_checkpoint scenario_trackedSpans []
                   [\<lparr>SQLInstanceID = 1, Spans = scenario_trackedSpans\<rparr>]))) = 1"
  using makePlan_sinkless_single_partition
          [of scenario_details scenario_dsp scenario_trackedSpans scenario_execCtx 7
              "\<lparr>WallTime = 10, Logical = 0\<rparr>" scenario_checkpoint "[]"]
  by (simp add: scenario_details_def scenario_dsp_def Let_def)

text \<open>
  Claim C4. When no testing knob is installed, every aggregator specification carries
  the spans and the timestamp of the flow's checkpoint as they are, whatever spans its
  partition holds; all of them carry the same checkpoint.
\<close>

theorem makePlan_shared_checkpoint:
  assumes "noOnDistflowSpec execCtx"
    and "i < length spanPartitions"
  shows "(let aggregatorSpecs =
               fst (makePlan_specs execCtx jobID details initialHighWater checkpoint
                      trackedSpans selectClause spanPartitions)
         in length aggregatorSpecs = length spanPartitions \<and>
            ChangeAggregatorSpec_Checkpoint.Spans
               (ChangeAggregatorSpec.Checkpoint (aggregatorSpecs ! i)) = Checkpoint.Spans checkpoint \<and>
            ChangeAggregatorSpec_Checkpoint.Timestamp
               (ChangeAggregatorSpec.Checkpoint (aggregatorSpecs ! i)) = Checkpoint.Timestamp checkpoint \<and>
            ChangeAggregatorSpec.Checkpoint (aggregatorSpecs ! i) =
              ChangeAggregatorSpec.Checkpoint (aggregatorSpecs ! 0))"
proof -
  have "0 < length spanPartitions" using assms(2) by (cases spanPartitions) auto
  then show ?thesis
    using assms
    by (simp add: makePlan_specs_no_knob length_makePlan_aggregatorSpecs
          nth_makePlan_aggregatorSpecs Let_def)
qed


theorem makePlan_shared_checkpoint_witness:
  "noOnDistflowSpec scenario_execCtx \<and>
   ChangeAggregatorSpec.Checkpoint
     (fst (makePlan_specs scenario_execCtx 7 scenario_details \<lparr>WallTime = 10, Logical = 0\<rparr>
             scenario_checkpoint scenario_trackedSpans []
             [\<lparr>SQLInstanceID = 2, Spans = [\<lparr>Key = [97], EndKey = [109]\<rparr>]\<rparr>,
              \<lparr>SQLInstanceID = 3, Spans = [\<lparr>Key = [109], EndKey = [122]\<rparr>]\<rparr>]) ! 1)
     = \<lparr>ChangeAggregatorSpec_Checkpoint.Spans = [\<lparr>Key = [97], EndKey = [109]\<rparr>],
        Timestamp = \<lparr>WallTime = 20, Logical = 0\<rparr>\<rparr>"
  using makePlan_shared_checkpoint
          [of scenario_execCtx 1
              "[\<lparr>SQLInstanceID = 2, Spans = [\<lparr>Key = [97], EndKey = [109]\<rparr>]\<rparr>,
                \<lparr>SQLInstanceID = 3, Spans = [\<lparr>Key = [109], EndKey = [122]\<rparr>]\<rparr>]"
              7 scenario_details "\<lparr>WallTime = 10, Logical = 0\<rparr>" scenario_checkpoint
              scenario_trackedSpans "[]"]
  by (simp add: noOnDistflowSpec_def scenario_execCtx_def scenario_checkpoint_def Let_def
        makePlan_specs_def makePlan_knobs_def makePlan_aggregatorSpecs_def)

lemma scenario_partitioning:
  "makePlan_spanPartitions (scenario_dsp\<lparr>GatewayID := g\<rparr>) () scenario_sinkDetails
     scenario_trackedSpans = Inr scenario_partitions"
  by (simp add: makePlan_spanPartitions_def scenario_dsp_def scenario_sinkDetails_def
        scenario_details_def scenario_trackedSpans_def scenario_partitions_def)

text \<open>
  Claim C5. The closure builds one frontier specification, over the tracked spans it
  was given (when no testing knob is installed) and not over a partition's spans. The
  plan has one frontier processor, the last one, placed on the gateway; every
  aggregator processor, one for each partition on the partition's instance, has a
  stream to it.
\<close>

theorem makePlan_single_frontier:
  assumes "makePlan_spanPartitions dsp (NewPlanningCtx dsp) details trackedSpans = Inr spanPartitions"
    and "noOnDistflowSpec execCtx"
  shows "(let specs = makePlan_specs execCtx jobID details initialHighWater checkpoint
                        trackedSpans selectClause spanPartitions;
              p = makePlan_stages dsp spanPartitions specs;
              n = length spanPartitions
          in makePlan execCtx jobID details initialHighWater checkpoint trackedSpans
               selectClause dsp
               = Inr (FinalizePlan dsp (NewPlanningCtx dsp) p, NewPlanningCtx dsp) \<and>
             frontierSpecsOf p = [snd specs] \<and>
             TrackedSpans (snd specs) = trackedSpans \<and>
             aggregatorSpecsOf p = fst specs \<and>
             length (Processors p) = n + 1 \<and>
             Processor.Core (Processors p ! n) = ChangeFrontier (snd specs) \<and>
             Processor.SQLInstanceID (Processors p ! n) = GatewayID dsp \<and>
             (\<forall>i < n. Processor.Core (Processors p ! i) = ChangeAggregator (fst specs ! i) \<and>
                      Processor.SQLInstanceID (Processors p ! i) =
                        SpanPartition.SQLInstanceID (spanPartitions ! i)) \<and>
             Streams p = map (\<lambda>i. \<lparr>SourceProcessor = i, DestProcessor = n\<rparr>) [0 ..< n] \<and>
             ResultRouters p = [n])"
proof -
  let ?specs = "makePlan_specs execCtx jobID details initialHighWater checkpoint
                  trackedSpans selectClause spanPartitions"
  let ?p = "makePlan_stages dsp spanPartitions ?specs"
  let ?n = "length spanPartitions"
  have len: "length (fst ?specs) = ?n"
    by (rule length_fst_makePlan_specs)
  have tracked: "TrackedSpans (snd ?specs) = trackedSpans"
    using assms(2) by (simp add: makePlan_specs_no_knob makePlan_changeFrontierSpec_def)
  have procs: "Processors ?p =
     map (\<lambda>(sp, spec). \<lparr>Processor.SQLInstanceID = SpanPartition.SQLInstanceID sp,
                         Core = ChangeAggregator spec,
                         ResultTypes = changefeedResultTypes\<rparr>)
         (zip spanPartitions (fst ?specs))
     @ [\<lparr>Processor.SQLInstanceID = GatewayID dsp, Core = ChangeFrontier (snd ?specs),
         ResultTypes = changefeedResultTypes\<rparr>]"
    by (rule Processors_makePlan_stages)
  have plen: "length (Processors ?p) = ?n + 1"
    using len by (simp add: procs)
  have last: "Processors ?p ! ?n =
     \<lparr>Processor.SQLInstanceID = GatewayID dsp, Core = ChangeFrontier (snd ?specs),
      ResultTypes = changefeedResultTypes\<rparr>"
    using len by (simp add: procs nth_append)
  have aggs: "\<forall>i < ?n. Processor.Core (Processors ?p ! i) = ChangeAggregator (fst ?specs ! i) \<and>
                  Processor.SQLInstanceID (Processors ?p ! i) =
                    SpanPartition.SQLInstanceID (spanPartitions ! i)"
    using len by (simp add: procs nth_append)
  have streams: "Streams ?p = map (\<lambda>i. \<lparr>SourceProcessor = i, DestProcessor = ?n\<rparr>) [0 ..< ?n]"
    using len by (simp add: Streams_makePlan_stages)
  have routers: "ResultRouters ?p = [?n]"
    using len by (simp add: ResultRouters_makePlan_stages)
  show ?thesis
    using makePlan_Inr [OF assms(1)] tracked plen last aggs streams routers
      aggregatorSpecsOf_makePlan_stages [OF len, of dsp]
      frontierSpecsOf_makePlan_stages [of dsp spanPartitions ?specs]
    by (simp add: Let_def)
qed

theorem makePlan_single_frontier_witness:
  "makePlan_spanPartitions scenario_dsp (NewPlanningCtx scenario_dsp) scenario_sinkDetails
     scenario_trackedSpans = Inr scenario_partitions \<and>
   noOnDistflowSpec scenario_execCtx \<and>
   (let p = makePlan_stages scenario_dsp scenario_partitions
              (makePlan_specs scenario_execCtx 7 scenario_sinkDetails \<lparr>WallTime = 10, Logical = 0\<rparr>
                 scenario_checkpoint scenario_trackedSpans [] scenario_partitions)
    in frontierSpecsOf p =
         [\<lparr>TrackedSpans = scenario_trackedSpans, Feed = scenario_sinkDetails, JobID = 7,
           UserProto = ''root''\<rparr>] \<and>
       Processor.SQLInstanceID (Processors p ! 2) = 1 \<and>
       Streams p = [\<lparr>SourceProcessor = 0, DestProcessor = 2\<rparr>,
                    \<lparr>SourceProcessor = 1, DestProcessor = 2\<rparr>])"
proof -
  have parts: "makePlan_spanPartitions scenario_dsp (NewPlanningCtx scenario_dsp)
                 scenario_sinkDetails scenario_trackedSpans = Inr scenario_partitions"
    using scenario_partitioning [of 1] by (simp add: scenario_dsp_def)
  have knob: "noOnDistflowSpec scenario_execCtx"
    by (simp add: noOnDistflowSpec_def scenario_execCtx_def)
  have n: "length scenario_partitions = 2"
    by (simp add: scenario_partitions_def)
  have upt: "[0 ..< 2] = [0, Suc 0]"
    by (simp add: upt_rec)
  show ?thesis
    using makePlan_single_frontier
            [OF parts knob, of 7 "\<lparr>WallTime = 10, Logical = 0\<rparr>" scenario_checkpoint "[]"]
          parts knob
    by (simp add: Let_def n upt makePlan_specs_no_knob makePlan_changeFrontierSpec_def
          scenario_execCtx_def scenario_dsp_def)
qed

subsection \<open>The starting timestamps\<close>




subsection \<open>The result writer\<close>

lemma blockingSelect_first:
  "pollSelect (sched (t + n)) = Some r \<Longrightarrow> (\<forall>i < n. pollSelect (sched (t + i)) = None) \<Longrightarrow>
   blockingSelect sched t = Some r"
proof (induction n arbitrary: t)
  case 0
  then show ?case by (simp add: blockingSelect.simps [of sched t])
next
  case (Suc n)
  have "pollSelect (sched t) = None" using Suc.prems(2) by (metis add.right_neutral zero_less_Suc)
  moreover have "blockingSelect sched (Suc t) = Some r"
  proof (rule Suc.IH)
    show "pollSelect (sched (Suc t + n)) = Some r" using Suc.prems(1) by simp
    show "\<forall>i<n. pollSelect (sched (Suc t + i)) = None"
    proof (intro allI impI)
      fix i assume "i < n"
      then have "pollSelect (sched (t + Suc i)) = None" using Suc.prems(2) by (metis Suc_less_eq)
      then show "pollSelect (sched (Suc t + i)) = None" by simp
    qed
  qed
  ultimately show ?case by (simp add: blockingSelect.simps [of sched t])
qed

lemma blockingSelect_Some:
  assumes "blockingSelect sched t = Some r"
  shows "\<exists>n. pollSelect (sched (t + n)) = Some r \<and> (\<forall>i < n. pollSelect (sched (t + i)) = None)"
proof (rule blockingSelect.raw_induct
         [where P = "\<lambda>sched t r. \<exists>n. pollSelect (sched (t + n)) = Some r \<and>
                                     (\<forall>i < n. pollSelect (sched (t + i)) = None)",
          OF _ assms])
  fix f :: "(nat \<Rightarrow> selectEnv) \<Rightarrow> nat \<Rightarrow> selected option" and sched t r
  assume IH: "\<And>s u y. f s u = Some y \<Longrightarrow>
                \<exists>n. pollSelect (s (u + n)) = Some y \<and> (\<forall>i < n. pollSelect (s (u + i)) = None)"
    and step: "(case pollSelect (sched t) of None \<Rightarrow> f sched (Suc t) | Some r \<Rightarrow> Some r) = Some r"
  show "\<exists>n. pollSelect (sched (t + n)) = Some r \<and> (\<forall>i < n. pollSelect (sched (t + i)) = None)"
  proof (cases "pollSelect (sched t)")
    case None
    then have "f sched (Suc t) = Some r" using step by simp
    then obtain n where n: "pollSelect (sched (Suc t + n)) = Some r"
        "\<forall>i < n. pollSelect (sched (Suc t + i)) = None"
      using IH by blast
    have "\<forall>i < Suc n. pollSelect (sched (t + i)) = None"
    proof (intro allI impI)
      fix i assume i: "i < Suc n"
      show "pollSelect (sched (t + i)) = None"
      proof (cases i)
        case 0
        then show ?thesis using None by simp
      next
        case (Suc k)
        then show ?thesis using n(2) i by simp
      qed
    qed
    then show ?thesis using n(1) by (intro exI [of _ "Suc n"]) simp
  next
    case (Some a)
    then have "a = r" using step by simp
    then show ?thesis using Some by (intro exI [of _ 0]) simp
  qed
qed

lemma blockingSelect_None:
  "blockingSelect sched t = None \<longleftrightarrow> (\<forall>n. pollSelect (sched (t + n)) = None)"
proof
  assume blocked: "blockingSelect sched t = None"
  show "\<forall>n. pollSelect (sched (t + n)) = None"
  proof (rule ccontr)
    assume "\<not> (\<forall>n. pollSelect (sched (t + n)) = None)"
    then have ex: "\<exists>n. pollSelect (sched (t + n)) \<noteq> None" by simp
    define m where "m = (LEAST n. pollSelect (sched (t + n)) \<noteq> None)"
    have m: "pollSelect (sched (t + m)) \<noteq> None"
      unfolding m_def using ex by (rule LeastI_ex)
    have "\<forall>i < m. pollSelect (sched (t + i)) = None"
      unfolding m_def using not_less_Least by blast
    moreover obtain r where "pollSelect (sched (t + m)) = Some r" using m by blast
    ultimately have "blockingSelect sched t = Some r" by (rule blockingSelect_first [rotated])
    then show False using blocked by simp
  qed
next
  assume never: "\<forall>n. pollSelect (sched (t + n)) = None"
  show "blockingSelect sched t = None"
  proof (cases "blockingSelect sched t")
    case None
    then show ?thesis .
  next
    case (Some r)
    then show ?thesis using blockingSelect_Some [OF Some] never by simp
  qed
qed

lemma pollSelect_None: "pollSelect e = None \<longleftrightarrow> idle e"
  by (simp add: pollSelect_def idle_def split: option.splits)

lemma pollSelect_Sent: "pollSelect e = Some Sent \<Longrightarrow> chanReady e"
  by (simp add: pollSelect_def split: option.splits if_splits)

lemma pollSelect_CtxDone: "pollSelect e = Some (CtxDone x) \<Longrightarrow> ctxErr e = Some x"
  by (simp add: pollSelect_def split: option.splits if_splits)

lemma AddRow_unfold:
  "AddRow sched h w row =
     (case blockingSelect sched 0 of
        None \<Rightarrow> None
      | Some (CtxDone e) \<Rightarrow> Some (fst (appendToNil h row), w, Some e)
      | Some Sent \<Rightarrow>
          Some (fst (appendToNil h row), w\<lparr>rowsCh := rowsCh w @ [snd (appendToNil h row)]\<rparr>, None))"
  by (simp add: AddRow_def case_prod_unfold Let_def)

lemma AddRow_cases:
  "(case AddRow sched h w row of
      None \<Rightarrow> \<forall>n. idle (sched n)
    | Some (h', w', e) \<Rightarrow>
        \<exists>n. (\<forall>i < n. idle (sched i)) \<and>
            ((e = None \<and> chanReady (sched n) \<and>
              rowsCh w' = rowsCh w @ [snd (appendToNil h row)]) \<or>
             (e \<noteq> None \<and> e = ctxErr (sched n) \<and> rowsCh w' = rowsCh w)))"
proof (cases "blockingSelect sched 0")
  case None
  then have "\<forall>n. idle (sched n)"
    using blockingSelect_None [of sched 0] by (simp add: pollSelect_None)
  then show ?thesis using None by (simp add: AddRow_unfold)
next
  case (Some r)
  then obtain n where n: "pollSelect (sched n) = Some r" "\<forall>i < n. idle (sched i)"
    using blockingSelect_Some [OF Some] by (auto simp: pollSelect_None)
  show ?thesis
  proof (cases r)
    case (CtxDone x)
    then have "ctxErr (sched n) = Some x" using n(1) by (simp add: pollSelect_CtxDone)
    then show ?thesis
      using Some CtxDone n(2) by (auto simp: AddRow_unfold)
  next
    case Sent
    then have "chanReady (sched n)" using n(1) by (simp add: pollSelect_Sent)
    then show ?thesis
      using Some Sent n(2) by (auto simp: AddRow_unfold)
  qed
qed

text \<open>
  Claim C7. \<^verbatim>\<open>AddRow\<close> does not return while the context is not done and the channel
  does not take the row. When it returns, either the channel took the row, which is
  then on the channel, and the error is nil; or the context was done, the error is the
  context's error and nothing was sent. There is no other outcome, and it does return
  as soon as one of the two can proceed.
\<close>

theorem AddRow_outcomes:
  "((\<exists>n. \<not> idle (sched n)) \<longleftrightarrow> AddRow sched h w row \<noteq> None) \<and>
   (case AddRow sched h w row of
      None \<Rightarrow> \<forall>n. idle (sched n)
    | Some (h', w', e) \<Rightarrow>
        \<exists>n. (\<forall>i < n. idle (sched i)) \<and>
            ((e = None \<and> chanReady (sched n) \<and>
              rowsCh w' = rowsCh w @ [snd (appendToNil h row)]) \<or>
             (e \<noteq> None \<and> e = ctxErr (sched n) \<and> rowsCh w' = rowsCh w)))"
proof (cases "AddRow sched h w row")
  case None
  then show ?thesis using AddRow_cases [where sched = sched and h = h and w = w and row = row] by simp
next
  case (Some res)
  obtain h' w' e where res: "res = (h', w', e)" by (cases res) auto
  then obtain n where "(e = None \<and> chanReady (sched n)) \<or> (e \<noteq> None \<and> e = ctxErr (sched n))"
    using AddRow_cases [where sched = sched and h = h and w = w and row = row] Some by auto
  then have "\<not> idle (sched n)" by (auto simp: idle_def)
  then show ?thesis using AddRow_cases [where sched = sched and h = h and w = w and row = row] Some by auto
qed

lemma scenario_accepting_select: "blockingSelect scenario_accepting 0 = Some Sent"
  by (rule blockingSelect_first [of _ 0 2, simplified])
     (auto simp: scenario_accepting_def scenario_idle_def pollSelect_def)

lemma scenario_cancelled_select: "blockingSelect scenario_cancelled 0 = Some (CtxDone Canceled)"
  by (rule blockingSelect_first [of _ 0 1, simplified])
     (auto simp: scenario_cancelled_def scenario_idle_def pollSelect_def)

lemma scenario_AddRow_accepting:
  "AddRow scenario_accepting scenario_heap scenario_writer scenario_row =
     Some (scenario_heap_copied, scenario_writer\<lparr>rowsCh := [scenario_row_copied]\<rparr>, None)"
  by (simp add: AddRow_unfold scenario_accepting_select appendToNil_def readSlice_def
        scenario_heap_def scenario_row_def scenario_writer_def scenario_heap_copied_def
        scenario_row_copied_def Let_def)

theorem AddRow_outcomes_witness:
  "AddRow scenario_accepting scenario_heap scenario_writer scenario_row =
     Some (scenario_heap_copied, scenario_writer\<lparr>rowsCh := [scenario_row_copied]\<rparr>, None) \<and>
   AddRow scenario_cancelled scenario_heap scenario_writer scenario_row =
     Some (scenario_heap_copied, scenario_writer, Some Canceled)"
  using AddRow_outcomes [where sched = scenario_accepting and h = scenario_heap
                           and w = scenario_writer and row = scenario_row]
        AddRow_outcomes [where sched = scenario_cancelled and h = scenario_heap
                           and w = scenario_writer and row = scenario_row]
  by (simp add: AddRow_unfold scenario_accepting_select scenario_cancelled_select
        appendToNil_def readSlice_def scenario_heap_def scenario_row_def scenario_writer_def
        scenario_heap_copied_def scenario_row_copied_def Let_def)

lemma length_writeArray: "length (writeArray h w) = length h"
  by (simp add: writeArray_def case_prod_unfold)

lemma nth_writeArray_other: "fst w \<noteq> k \<Longrightarrow> writeArray h w ! k = h ! k"
  by (simp add: writeArray_def case_prod_unfold)

lemma nth_foldl_writeArray_other:
  "\<forall>w \<in> set writes. fst w \<noteq> k \<Longrightarrow> foldl writeArray h writes ! k = h ! k"
  by (induction writes arbitrary: h) (simp_all add: nth_writeArray_other)

lemma readSlice_appendToNil:
  "readSlice (fst (appendToNil h row)) (snd (appendToNil h row)) = readSlice h row"
  by (simp add: appendToNil_def Let_def readSlice_def)

lemma length_readSlice:
  "validSlice h row \<Longrightarrow>
   length (readSlice h row) = (case row of None \<Rightarrow> 0 | Some sl \<Rightarrow> sliceLen sl)"
  by (auto simp: validSlice_def readSlice_def split: option.splits)

text \<open>
  Claim C8. The row sent on the channel has the elements the input row had when
  \<^verbatim>\<open>AddRow\<close> was called, and it lies in an array allocated by the call (or is nil, for
  a row without elements); so it still has those elements after any writes to other
  arrays, the producer's buffer among them.
\<close>

theorem AddRow_copies_row:
  assumes "AddRow sched h w row = Some (h', w', None)"
    and "\<forall>wr \<in> set writes. fst wr \<noteq> length h"
  shows "rowsCh w' = rowsCh w @ [last (rowsCh w')] \<and>
         readSlice h' (last (rowsCh w')) = readSlice h row \<and>
         readSlice (foldl writeArray h' writes) (last (rowsCh w')) = readSlice h row \<and>
         (case last (rowsCh w') of
            None \<Rightarrow> readSlice h row = []
          | Some sl \<Rightarrow> sliceArray sl = length h \<and> length h' = Suc (length h))"
proof -
  let ?row' = "snd (appendToNil h row)"
  have sent: "h' = fst (appendToNil h row)" "rowsCh w' = rowsCh w @ [?row']"
    using assms(1)
    by (auto simp: AddRow_unfold split: option.splits selected.splits)
  then have last: "last (rowsCh w') = ?row'" by simp
  have copy: "readSlice h' ?row' = readSlice h row"
    using sent(1) by (simp add: readSlice_appendToNil)
  have later: "readSlice (foldl writeArray h' writes) ?row' = readSlice h row"
  proof (cases ?row')
    case None
    then show ?thesis using copy by (simp add: readSlice_def)
  next
    case (Some sl)
    then have "sliceArray sl = length h"
      by (auto simp: appendToNil_def Let_def split: if_splits)
    then have "foldl writeArray h' writes ! sliceArray sl = h' ! sliceArray sl"
      using assms(2) by (simp add: nth_foldl_writeArray_other)
    then show ?thesis using copy Some by (simp add: readSlice_def)
  qed
  have fresh: "(case ?row' of
            None \<Rightarrow> readSlice h row = []
          | Some sl \<Rightarrow> sliceArray sl = length h \<and> length h' = Suc (length h))"
    using sent(1) by (auto simp: appendToNil_def Let_def split: if_splits)
  show ?thesis using sent(2) last copy later fresh by simp
qed

theorem AddRow_copies_row_witness:
  "AddRow scenario_accepting scenario_heap scenario_writer scenario_row =
     Some (scenario_heap_copied, scenario_writer\<lparr>rowsCh := [scenario_row_copied]\<rparr>, None) \<and>
   map fst scenario_writes = [0, 0] \<and> length scenario_heap = 1 \<and>
   readSlice (foldl writeArray scenario_heap_copied scenario_writes) scenario_row = [99, 98] \<and>
   readSlice (foldl writeArray scenario_heap_copied scenario_writes) scenario_row_copied = [10, 20]"
proof -
  have writes: "\<forall>wr \<in> set scenario_writes. fst wr \<noteq> length scenario_heap"
    by (simp add: scenario_heap_def scenario_writes_def)
  have "readSlice (foldl writeArray scenario_heap_copied scenario_writes) scenario_row = [99, 98]"
    by (simp add: readSlice_def writeArray_def scenario_row_def scenario_heap_copied_def
          scenario_writes_def)
  moreover have "readSlice scenario_heap scenario_row = [10, 20]"
    by (simp add: readSlice_def scenario_row_def scenario_heap_def)
  ultimately show ?thesis
    using AddRow_copies_row [OF scenario_AddRow_accepting writes] scenario_AddRow_accepting
    by (simp add: scenario_writes_def scenario_heap_def)
qed

end
